theory Spec2Isabelle
  imports Complex_Main
begin

section \<open>The shape-drawing interaction of pikaso: ShapeDrawer and Pencil\<close>

text \<open>
  The theory embeds \<^verbatim>\<open>src/ShapeDrawer/index.ts\<close> (the abstract class
  \<^verbatim>\<open>ShapeDrawer\<close>) and the freehand drawer \<^verbatim>\<open>Pencil\<close> that extends it.
  Every method becomes a function on an explicit state: the objects the methods mutate
  (the drawers themselves, the Board, the Konva stage, the browser window and the Konva
  nodes) are fields of one record, and a method takes the identity of its receiver
  \<^verbatim>\<open>this\<close> as first argument. A method that can throw returns \<open>error + _\<close>.
\<close>

subsection \<open>Data\<close>

text \<open>
  Modelled from the spec: the enum \<^verbatim>\<open>DrawType\<close> of \<^verbatim>\<open>../types\<close>, which is not
  among the sources. The spec calls it an enumerated tag identifying a shape type; the
  sources name one member only, \<^verbatim>\<open>DrawType.Pencil\<close>. The other members are numbered.
\<close>

datatype DrawType = Pencil | OtherDrawType nat

text \<open>
  \<^verbatim>\<open>Point\<close> of \<^verbatim>\<open>../types\<close>: the object \<^verbatim>\<open>{ x, y }\<close>. Coordinates are JavaScript
  numbers; the code stores and copies them and never computes with them.
\<close>

record Point =
  point_x :: real
  point_y :: real

text \<open>
  A Konva configuration object (\<^verbatim>\<open>Konva.ShapeConfig\<close>, \<^verbatim>\<open>Konva.LineConfig\<close>). Every
  key is optional. The keys the code reads or writes are fields: \<^verbatim>\<open>x\<close>, \<^verbatim>\<open>y\<close>,
  \<^verbatim>\<open>points\<close> and \<^verbatim>\<open>globalCompositeOperation\<close>; all other keys (fill, stroke, ...) are
  kept in \<open>cfg_rest\<close>.
\<close>

record Config =
  cfg_x :: "real option"
  cfg_y :: "real option"
  cfg_points :: "real list option"
  cfg_globalCompositeOperation :: "string option"
  cfg_rest :: "string \<rightharpoonup> string"

definition empty_config :: Config where
  "empty_config = \<lparr>cfg_x = None, cfg_y = None, cfg_points = None,
     cfg_globalCompositeOperation = None, cfg_rest = Map.empty\<rparr>"

text \<open>
  The object spread \<^verbatim>\<open>{ ...a, ...b }\<close>: a key of \<open>b\<close> wins over the same key of \<open>a\<close>.
\<close>

definition spread :: "Config \<Rightarrow> Config \<Rightarrow> Config" where
  "spread a b = \<lparr>
     cfg_x = (case cfg_x b of Some v \<Rightarrow> Some v | None \<Rightarrow> cfg_x a),
     cfg_y = (case cfg_y b of Some v \<Rightarrow> Some v | None \<Rightarrow> cfg_y a),
     cfg_points = (case cfg_points b of Some v \<Rightarrow> Some v | None \<Rightarrow> cfg_points a),
     cfg_globalCompositeOperation =
       (case cfg_globalCompositeOperation b of Some v \<Rightarrow> Some v
        | None \<Rightarrow> cfg_globalCompositeOperation a),
     cfg_rest = cfg_rest a ++ cfg_rest b\<rparr>"

text \<open>
  The four methods that the constructor of \<^verbatim>\<open>ShapeDrawer\<close> binds to the instance and
  that \<^verbatim>\<open>draw\<close> registers as listeners. A bound method is one function object per
  drawer, so a listener is the pair of the drawer and the method.
\<close>

datatype Method = OnStartDrawing | OnDrawing | OnFinishDrawing | OnKeyDown

type_synonym Handler = "nat \<times> Method"

text \<open>
  The fields of a \<^verbatim>\<open>ShapeDrawer\<close> instance. \<^verbatim>\<open>startPoint\<close> and \<^verbatim>\<open>shape\<close> are
  declared without initialiser; \<open>None\<close> is \<^verbatim>\<open>undefined\<close> or \<^verbatim>\<open>null\<close>. \<^verbatim>\<open>shape\<close>
  holds a reference to a Konva node. \<^verbatim>\<open>config\<close> is \<^verbatim>\<open>undefined\<close> before the first
  \<^verbatim>\<open>draw\<close>; it is only ever spread, and spreading \<^verbatim>\<open>undefined\<close> adds no key, so
  \<open>empty_config\<close> stands for it.
\<close>

record Drawer =
  drawType :: DrawType
  config :: Config
  startPoint :: "Point option"
  shape :: "nat option"

text \<open>
  Everything the methods read or write:
  \<^item> \<open>activeDrawing\<close>: \<^verbatim>\<open>board.activeDrawing\<close>;
  \<^item> \<open>cursor\<close>: \<^verbatim>\<open>board.stage.container().style.cursor\<close>;
  \<^item> \<open>pointerPosition\<close>: what \<^verbatim>\<open>board.stage.getPointerPosition()\<close> returns, \<open>None\<close> when
    Konva has no pointer position;
  \<^item> \<open>stageListeners\<close>: the listeners of the Konva stage, in registration order;
  \<^item> \<open>windowListeners\<close>: the listeners of \<^verbatim>\<open>window\<close> (the DOM keeps one entry per event
    type and callback);
  \<^item> \<open>shapes\<close>: the Board's collection of committed shapes, as references;
  \<^item> \<open>nodes\<close>: the Konva nodes allocated so far, a reference being an index (a
    reference that a drawer or the Board holds is the index of a node allocated before);
  \<^item> \<open>redraws\<close>: how often \<^verbatim>\<open>board.draw()\<close> was called;
  \<^item> \<open>drawers\<close>: the drawer objects, by identity.
\<close>

record world =
  activeDrawing :: "DrawType option"
  cursor :: string
  pointerPosition :: "Point option"
  stageListeners :: "(string \<times> Handler) list"
  windowListeners :: "(string \<times> Handler) set"
  shapes :: "nat list"
  nodes :: "Config list"
  redraws :: nat
  drawers :: "nat \<Rightarrow> Drawer"

datatype error = TypeError

definition upd_drawer :: "nat \<Rightarrow> (Drawer \<Rightarrow> Drawer) \<Rightarrow> world \<Rightarrow> world" where
  "upd_drawer d f s = s\<lparr>drawers := (drawers s)(d := f (drawers s d))\<rparr>"

subsection \<open>The collaborators: Board, Konva stage and nodes, window\<close>

text \<open>
  Modelled from the spec: \<^verbatim>\<open>Board.setActiveDrawing\<close> (\<^verbatim>\<open>../Board\<close> is not among the
  sources). The spec gives the rendering surface a plain get and set of the active
  DrawMode.
\<close>

definition Board_setActiveDrawing :: "DrawType option \<Rightarrow> world \<Rightarrow> world" where
  "Board_setActiveDrawing m s = s\<lparr>activeDrawing := m\<rparr>"

text \<open>
  Modelled from the spec: \<^verbatim>\<open>Board.addShape\<close>, the committed-shape registration call. It
  adds the primitive to the Board's shape collection and returns it.
\<close>

definition Board_addShape :: "nat \<Rightarrow> world \<Rightarrow> nat \<times> world" where
  "Board_addShape r s = (r, s\<lparr>shapes := shapes s @ [r]\<rparr>)"

text \<open>Modelled from the spec: \<^verbatim>\<open>Board.draw\<close>, the redraw trigger.\<close>

definition Board_draw :: "world \<Rightarrow> world" where
  "Board_draw s = s\<lparr>redraws := Suc (redraws s)\<rparr>"

text \<open>
  Konva takes the event names of \<^verbatim>\<open>on\<close> and \<^verbatim>\<open>off\<close> as one string and splits it at
  the spaces.
\<close>

fun split_at_spaces :: "string \<Rightarrow> string \<Rightarrow> string list" where
  "split_at_spaces acc [] = [acc]"
| "split_at_spaces acc (c # cs) =
     (if c = CHR '' '' then acc # split_at_spaces [] cs else split_at_spaces (acc @ [c]) cs)"

definition event_names :: "string \<Rightarrow> string list" where
  "event_names evtStr = split_at_spaces [] evtStr"

text \<open>
  \<^verbatim>\<open>stage.on(evtStr, handler)\<close> appends the handler to the listeners of every event
  named; \<^verbatim>\<open>stage.off(evtStr, handler)\<close> removes every entry of that handler from the
  listeners of every event named.
\<close>

definition Stage_on :: "string \<Rightarrow> Handler \<Rightarrow> world \<Rightarrow> world" where
  "Stage_on evtStr h s =
     s\<lparr>stageListeners := stageListeners s @ map (\<lambda>e. (e, h)) (event_names evtStr)\<rparr>"

definition Stage_off :: "string \<Rightarrow> Handler \<Rightarrow> world \<Rightarrow> world" where
  "Stage_off evtStr h s =
     s\<lparr>stageListeners :=
         filter (\<lambda>l. \<not> (fst l \<in> set (event_names evtStr) \<and> snd l = h)) (stageListeners s)\<rparr>"

text \<open>
  \<^verbatim>\<open>window.addEventListener\<close> ignores a listener that is registered already for the
  event; \<^verbatim>\<open>window.removeEventListener\<close> removes it.
\<close>

definition Window_addEventListener :: "string \<Rightarrow> Handler \<Rightarrow> world \<Rightarrow> world" where
  "Window_addEventListener ev h s = s\<lparr>windowListeners := insert (ev, h) (windowListeners s)\<rparr>"

definition Window_removeEventListener :: "string \<Rightarrow> Handler \<Rightarrow> world \<Rightarrow> world" where
  "Window_removeEventListener ev h s = s\<lparr>windowListeners := windowListeners s - {(ev, h)}\<rparr>"

definition set_cursor :: "string \<Rightarrow> world \<Rightarrow> world" where
  "set_cursor c s = s\<lparr>cursor := c\<rparr>"

text \<open>
  \<^verbatim>\<open>new Konva.Line(config)\<close> allocates a node whose attributes are the keys of
  \<open>config\<close>. The getters \<^verbatim>\<open>x()\<close>, \<^verbatim>\<open>y()\<close> and \<^verbatim>\<open>points()\<close> return the attribute, or
  Konva's default (\<open>0\<close>, \<open>0\<close>, \<open>[]\<close>) when the node has none; \<^verbatim>\<open>points(v)\<close> sets it.
\<close>

definition Line_new :: "Config \<Rightarrow> world \<Rightarrow> nat \<times> world" where
  "Line_new cfg s = (length (nodes s), s\<lparr>nodes := nodes s @ [cfg]\<rparr>)"

definition Node_x :: "Config \<Rightarrow> real" where
  "Node_x n = (case cfg_x n of Some v \<Rightarrow> v | None \<Rightarrow> 0)"

definition Node_y :: "Config \<Rightarrow> real" where
  "Node_y n = (case cfg_y n of Some v \<Rightarrow> v | None \<Rightarrow> 0)"

definition Line_points :: "Config \<Rightarrow> real list" where
  "Line_points n = (case cfg_points n of Some ps \<Rightarrow> ps | None \<Rightarrow> [])"

definition Line_set_points :: "nat \<Rightarrow> real list \<Rightarrow> world \<Rightarrow> world" where
  "Line_set_points r ps s = s\<lparr>nodes := (nodes s)[r := (nodes s ! r)\<lparr>cfg_points := Some ps\<rparr>]\<rparr>"

subsection \<open>ShapeDrawer\<close>

text \<open>\<^verbatim>\<open>isDrawing()\<close>: \<^verbatim>\<open>this.board.activeDrawing === this.drawType\<close>.\<close>

definition isDrawing :: "nat \<Rightarrow> world \<Rightarrow> bool" where
  "isDrawing d s = (activeDrawing s = Some (drawType (drawers s d)))"

text \<open>\<^verbatim>\<open>stopDrawing()\<close>, statement by statement.\<close>

definition stopDrawing :: "nat \<Rightarrow> world \<Rightarrow> world" where
  "stopDrawing d s =
    (let s1 = upd_drawer d (\<lambda>dr. dr\<lparr>shape := None\<rparr>) s;
         s2 = Board_setActiveDrawing None s1;
         s3 = set_cursor ''inherit'' s2;
         s4 = Stage_off ''mousedown touchstart'' (d, OnStartDrawing) s3;
         s5 = Stage_off ''mousemove touchmove'' (d, OnDrawing) s4;
         s6 = Stage_off ''mouseup touchend'' (d, OnFinishDrawing) s5;
         s7 = Window_removeEventListener ''mouseup'' (d, OnFinishDrawing) s6;
         s8 = Window_removeEventListener ''touchend'' (d, OnFinishDrawing) s7
     in Window_removeEventListener ''keydown'' (d, OnKeyDown) s8)"

text \<open>
  \<^verbatim>\<open>draw(config)\<close>. \<^verbatim>\<open>Pencil.draw\<close> only calls it through \<^verbatim>\<open>super\<close>.
\<close>

definition draw :: "nat \<Rightarrow> Config \<Rightarrow> world \<Rightarrow> world" where
  "draw d cfg s =
    (let s1 = upd_drawer d (\<lambda>dr. dr\<lparr>config := cfg\<rparr>) s;
         s2 = stopDrawing d s1;
         s3 = Board_setActiveDrawing (Some (drawType (drawers s2 d))) s2;
         s4 = Stage_on ''mousedown touchstart'' (d, OnStartDrawing) s3;
         s5 = Stage_on ''mousemove touchmove'' (d, OnDrawing) s4;
         s6 = Stage_on ''mouseup touchend'' (d, OnFinishDrawing) s5;
         s7 = Window_addEventListener ''mouseup'' (d, OnFinishDrawing) s6;
         s8 = Window_addEventListener ''touchend'' (d, OnFinishDrawing) s7
     in Window_addEventListener ''keydown'' (d, OnKeyDown) s8)"

definition Pencil_draw :: "nat \<Rightarrow> Config \<Rightarrow> world \<Rightarrow> world" where
  "Pencil_draw d cfg s = draw d cfg s"


text \<open>
  \<^verbatim>\<open>getShapePosition()\<close>. The \<^verbatim>\<open>!\<close> of \<^verbatim>\<open>this.shape!.x()\<close> is erased by the
  compiler: calling a method of \<^verbatim>\<open>null\<close> throws a TypeError.
\<close>

definition getShapePosition :: "nat \<Rightarrow> world \<Rightarrow> error + Point" where
  "getShapePosition d s =
    (case shape (drawers s d) of
       None \<Rightarrow> Inl TypeError
     | Some r \<Rightarrow> Inr \<lparr>point_x = Node_x (nodes s ! r), point_y = Node_y (nodes s ! r)\<rparr>)"

text \<open>
  \<^verbatim>\<open>ShapeDrawer.onStartDrawing()\<close>. Destructuring the \<^verbatim>\<open>null\<close> that
  \<^verbatim>\<open>getPointerPosition()\<close> may return throws a TypeError.
\<close>

definition ShapeDrawer_onStartDrawing :: "nat \<Rightarrow> world \<Rightarrow> error + world" where
  "ShapeDrawer_onStartDrawing d s =
    (if \<not> isDrawing d s then Inr s
     else case pointerPosition s of
            None \<Rightarrow> Inl TypeError
          | Some p \<Rightarrow>
              Inr (upd_drawer d
                (\<lambda>dr. dr\<lparr>startPoint := Some \<lparr>point_x = point_x p, point_y = point_y p\<rparr>\<rparr>) s))"

text \<open>\<^verbatim>\<open>ShapeDrawer.onDrawing(e)\<close>.\<close>

definition ShapeDrawer_onDrawing :: "nat \<Rightarrow> world \<Rightarrow> world" where
  "ShapeDrawer_onDrawing d s = (if isDrawing d s then set_cursor ''crosshair'' s else s)"

text \<open>\<^verbatim>\<open>onFinishDrawing()\<close>.\<close>

definition onFinishDrawing :: "nat \<Rightarrow> world \<Rightarrow> world" where
  "onFinishDrawing d s = set_cursor ''inherit'' (upd_drawer d (\<lambda>dr. dr\<lparr>shape := None\<rparr>) s)"

text \<open>\<^verbatim>\<open>onKeyDown(e)\<close>, by the key of the event.\<close>

definition onKeyDown :: "nat \<Rightarrow> string \<Rightarrow> world \<Rightarrow> world" where
  "onKeyDown d key s = (if key = ''Escape'' then stopDrawing d s else s)"

subsection \<open>Pencil\<close>

text \<open>\<^verbatim>\<open>Pencil.createShape(config)\<close>.\<close>

definition Pencil_createShape :: "nat \<Rightarrow> Config \<Rightarrow> world \<Rightarrow> nat \<times> world" where
  "Pencil_createShape d cfg s =
    (let (r, s1) = Line_new cfg s;
         s2 = upd_drawer d (\<lambda>dr. dr\<lparr>shape := Some r\<rparr>) s1
     in Board_addShape r s2)"


text \<open>
  \<^verbatim>\<open>Pencil.onStartDrawing()\<close>. Reading \<^verbatim>\<open>this.startPoint.x\<close> while \<^verbatim>\<open>startPoint\<close> is
  \<^verbatim>\<open>undefined\<close> throws a TypeError.
\<close>

definition Pencil_start_config :: "Point \<Rightarrow> Config \<Rightarrow> Config" where
  "Pencil_start_config sp cfg =
     spread (empty_config\<lparr>cfg_globalCompositeOperation := Some ''source-over'',
                           cfg_points := Some [point_x sp, point_y sp]\<rparr>) cfg"

definition Pencil_onStartDrawing :: "nat \<Rightarrow> world \<Rightarrow> error + world" where
  "Pencil_onStartDrawing d s =
    (case ShapeDrawer_onStartDrawing d s of
       Inl e \<Rightarrow> Inl e
     | Inr s1 \<Rightarrow>
        (case startPoint (drawers s1 d) of
           None \<Rightarrow> Inl TypeError
         | Some sp \<Rightarrow>
             Inr (snd (Pencil_createShape d (Pencil_start_config sp (config (drawers s1 d))) s1))))"

text \<open>
  \<^verbatim>\<open>Pencil.onDrawing(e)\<close>. Reading \<^verbatim>\<open>point.x\<close> of a \<^verbatim>\<open>null\<close> pointer position
  throws a TypeError.
\<close>

definition Pencil_onDrawing :: "nat \<Rightarrow> world \<Rightarrow> error + world" where
  "Pencil_onDrawing d s =
    (let s1 = ShapeDrawer_onDrawing d s in
     case shape (drawers s1 d) of
       None \<Rightarrow> Inr s1
     | Some r \<Rightarrow>
        (case pointerPosition s1 of
           None \<Rightarrow> Inl TypeError
         | Some point \<Rightarrow>
             Inr (Board_draw
               (Line_set_points r (Line_points (nodes s1 ! r) @ [point_x point, point_y point]) s1))))"

subsection \<open>Pointer events and a board with two drawers\<close>

text \<open>
  Konva records the position of the pointer on the stage before it calls the listeners
  of a pointer event.
\<close>

definition pointer_at :: "real \<Rightarrow> real \<Rightarrow> world \<Rightarrow> world" where
  "pointer_at px py s = s\<lparr>pointerPosition := Some \<lparr>point_x = px, point_y = py\<rparr>\<rparr>"

text \<open>
  A fresh board: no mode, no listener, no shape. Drawer \<open>0\<close> is the Pencil; drawer
  \<open>Suc k\<close> has the draw type numbered \<open>k\<close>.
\<close>

definition new_drawer :: "DrawType \<Rightarrow> Drawer" where
  "new_drawer t = \<lparr>drawType = t, config = empty_config, startPoint = None, shape = None\<rparr>"

definition fresh_board :: world where
  "fresh_board = \<lparr>activeDrawing = None, cursor = ''inherit'', pointerPosition = None,
     stageListeners = [], windowListeners = {}, shapes = [], nodes = [], redraws = 0,
     drawers = (\<lambda>i. case i of 0 \<Rightarrow> new_drawer Pencil | Suc k \<Rightarrow> new_drawer (OtherDrawType k))\<rparr>"

subsection \<open>What a drawer registers\<close>

text \<open>
  The listeners that \<^verbatim>\<open>draw\<close> registers for drawer \<open>d\<close>: three calls of
  \<^verbatim>\<open>stage.on\<close> with two event names each, and three calls of
  \<^verbatim>\<open>window.addEventListener\<close>.
\<close>

definition stage_bindings :: "nat \<Rightarrow> (string \<times> Handler) list" where
  "stage_bindings d =
     [(''mousedown'', (d, OnStartDrawing)), (''touchstart'', (d, OnStartDrawing)),
      (''mousemove'', (d, OnDrawing)), (''touchmove'', (d, OnDrawing)),
      (''mouseup'', (d, OnFinishDrawing)), (''touchend'', (d, OnFinishDrawing))]"

definition window_bindings :: "nat \<Rightarrow> (string \<times> Handler) set" where
  "window_bindings d =
     {(''mouseup'', (d, OnFinishDrawing)), (''touchend'', (d, OnFinishDrawing)),
      (''keydown'', (d, OnKeyDown))}"

subsection \<open>Sequences of events\<close>

text \<open>A handler that throws ends the sequence with its error.\<close>

definition then_do :: "error + 'a \<Rightarrow> ('a \<Rightarrow> error + 'b) \<Rightarrow> error + 'b" where
  "then_do r f = (case r of Inl e \<Rightarrow> Inl e | Inr v \<Rightarrow> f v)"

definition on_result :: "(world \<Rightarrow> 'a) \<Rightarrow> error + world \<Rightarrow> error + 'a" where
  "on_result f r = (case r of Inl e \<Rightarrow> Inl e | Inr s \<Rightarrow> Inr (f s))"

definition points_of :: "nat \<Rightarrow> world \<Rightarrow> real list" where
  "points_of r s = Line_points (nodes s ! r)"

text \<open>
  The stroke of the freehand drawer \<open>d\<close> on a board \<open>s0\<close>: \<^verbatim>\<open>draw({})\<close>, pointer-down
  at \<open>(0, 0)\<close>, pointer-move at \<open>(1, 1)\<close>, pointer-move at \<open>(2, 2)\<close>.
\<close>

definition pencil_stroke :: "nat \<Rightarrow> world \<Rightarrow> error + world" where
  "pencil_stroke d s0 =
     then_do
       (then_do (Pencil_onStartDrawing d (pointer_at 0 0 (Pencil_draw d empty_config s0)))
          (\<lambda>s. Pencil_onDrawing d (pointer_at 1 1 s)))
       (\<lambda>s. Pencil_onDrawing d (pointer_at 2 2 s))"

text \<open>
  The fresh board after \<^verbatim>\<open>draw({})\<close> on the Pencil (drawer \<open>0\<close>) and a pointer-down at
  \<open>(0, 0)\<close>: the Pencil is in drawing mode and holds the polyline it has just created,
  node \<open>0\<close>.
\<close>

definition pencil_anchored :: world where
  "pencil_anchored = \<lparr>activeDrawing = Some Pencil, cursor = ''inherit'',
     pointerPosition = Some \<lparr>point_x = 0, point_y = 0\<rparr>,
     stageListeners = stage_bindings 0, windowListeners = window_bindings 0,
     shapes = [0],
     nodes = [empty_config\<lparr>cfg_globalCompositeOperation := Some ''source-over'',
                            cfg_points := Some [0, 0]\<rparr>],
     redraws = 0,
     drawers = (drawers fresh_board)
       (0 := \<lparr>drawType = Pencil, config = empty_config,
               startPoint = Some \<lparr>point_x = 0, point_y = 0\<rparr>, shape = Some 0\<rparr>)\<rparr>"

text \<open>
  Then \<^verbatim>\<open>draw({})\<close> is called on drawer \<open>1\<close>, whose draw type is another one.
\<close>

definition pencil_superseded :: world where
  "pencil_superseded = draw 1 empty_config pencil_anchored"

section \<open>Properties\<close>

subsection \<open>Auxiliary facts\<close>

lemma event_names_down: "event_names ''mousedown touchstart'' = [''mousedown'', ''touchstart'']"
  by (simp add: event_names_def)

lemma event_names_move: "event_names ''mousemove touchmove'' = [''mousemove'', ''touchmove'']"
  by (simp add: event_names_def)

lemma event_names_up: "event_names ''mouseup touchend'' = [''mouseup'', ''touchend'']"
  by (simp add: event_names_def)

lemmas event_names_simps = event_names_down event_names_move event_names_up

lemmas collaborator_defs = upd_drawer_def Board_setActiveDrawing_def Board_addShape_def
  Board_draw_def Stage_on_def Stage_off_def Window_addEventListener_def
  Window_removeEventListener_def set_cursor_def Line_new_def Line_set_points_def

lemma off3_filter:
  "filter (\<lambda>l. \<not> (fst l \<in> set [e, f] \<and> snd l = h3))
     (filter (\<lambda>l. \<not> (fst l \<in> set [c, d] \<and> snd l = h2))
       (filter (\<lambda>l. \<not> (fst l \<in> set [a, b] \<and> snd l = h1)) xs))
   = filter (\<lambda>l. l \<notin> set [(a, h1), (b, h1), (c, h2), (d, h2), (e, h3), (f, h3)]) xs"
  unfolding filter_filter
  by (rule filter_cong[OF refl]) (auto simp: prod_eq_iff)

lemma remove3: "W - {a} - {b} - {c} = W - {a, b, c}"
  by blast

lemma insert3: "insert c (insert b (insert a W)) = W \<union> {a, b, c}"
  by blast

text \<open>The state after \<^verbatim>\<open>stopDrawing()\<close>, field by field.\<close>

lemma stopDrawing_stage:
  "stageListeners (stopDrawing d s) = filter (\<lambda>l. l \<notin> set (stage_bindings d)) (stageListeners s)"
  unfolding stage_bindings_def off3_filter[symmetric]
  by (simp add: stopDrawing_def Let_def collaborator_defs event_names_simps del: filter_filter)

lemma stopDrawing_window:
  "windowListeners (stopDrawing d s) = windowListeners s - window_bindings d"
  unfolding window_bindings_def remove3[symmetric]
  by (simp add: stopDrawing_def Let_def collaborator_defs)

lemma stopDrawing_fields:
  "activeDrawing (stopDrawing d s) = None"
  "cursor (stopDrawing d s) = ''inherit''"
  "pointerPosition (stopDrawing d s) = pointerPosition s"
  "shapes (stopDrawing d s) = shapes s"
  "nodes (stopDrawing d s) = nodes s"
  "redraws (stopDrawing d s) = redraws s"
  "drawers (stopDrawing d s) = (drawers s)(d := (drawers s d)\<lparr>shape := None\<rparr>)"
  "world.more (stopDrawing d s) = world.more s"
  by (simp_all add: stopDrawing_def Let_def collaborator_defs)

lemmas stopDrawing_simps = stopDrawing_stage stopDrawing_window stopDrawing_fields

text \<open>The state after \<^verbatim>\<open>draw(config)\<close>, field by field.\<close>

lemma draw_stage:
  "stageListeners (draw d cfg s) = stageListeners (stopDrawing d s) @ stage_bindings d"
  by (simp add: draw_def Let_def collaborator_defs stopDrawing_simps event_names_simps
      stage_bindings_def del: filter.simps)

lemma draw_window:
  "windowListeners (draw d cfg s) = windowListeners (stopDrawing d s) \<union> window_bindings d"
  unfolding window_bindings_def insert3[symmetric]
  by (simp add: draw_def Let_def collaborator_defs stopDrawing_simps)

lemma draw_fields:
  "activeDrawing (draw d cfg s) = Some (drawType (drawers s d))"
  "cursor (draw d cfg s) = ''inherit''"
  "pointerPosition (draw d cfg s) = pointerPosition s"
  "shapes (draw d cfg s) = shapes s"
  "nodes (draw d cfg s) = nodes s"
  "redraws (draw d cfg s) = redraws s"
  "drawers (draw d cfg s) = (drawers s)(d := (drawers s d)\<lparr>config := cfg, shape := None\<rparr>)"
  "world.more (draw d cfg s) = world.more s"
  by (simp_all add: draw_def Let_def collaborator_defs stopDrawing_simps)

lemmas draw_simps = draw_stage draw_window draw_fields

lemma stage_bindings_owner: "l \<in> set (stage_bindings d) \<Longrightarrow> fst (snd l) = d"
  by (auto simp: stage_bindings_def)

lemma window_bindings_owner: "l \<in> window_bindings d \<Longrightarrow> fst (snd l) = d"
  by (auto simp: window_bindings_def)

text \<open>The methods of the Pencil, step by step.\<close>

lemma Pencil_createShape_eq:
  "Pencil_createShape d cfg s =
     (length (nodes s),
      s\<lparr>nodes := nodes s @ [cfg], shapes := shapes s @ [length (nodes s)],
        drawers := (drawers s)(d := (drawers s d)\<lparr>shape := Some (length (nodes s))\<rparr>)\<rparr>)"
  by (simp add: Pencil_createShape_def collaborator_defs)

lemma ShapeDrawer_onDrawing_fields:
  "drawers (ShapeDrawer_onDrawing d s) = drawers s"
  "pointerPosition (ShapeDrawer_onDrawing d s) = pointerPosition s"
  "nodes (ShapeDrawer_onDrawing d s) = nodes s"
  "shapes (ShapeDrawer_onDrawing d s) = shapes s"
  "activeDrawing (ShapeDrawer_onDrawing d s) = activeDrawing s"
  "stageListeners (ShapeDrawer_onDrawing d s) = stageListeners s"
  "windowListeners (ShapeDrawer_onDrawing d s) = windowListeners s"
  by (simp_all add: ShapeDrawer_onDrawing_def set_cursor_def)

lemma Pencil_onDrawing_Some:
  "shape (drawers s d) = Some r \<Longrightarrow> pointerPosition s = Some p \<Longrightarrow>
   Pencil_onDrawing d s = Inr (Board_draw (Line_set_points r
       (Line_points (nodes s ! r) @ [point_x p, point_y p]) (ShapeDrawer_onDrawing d s)))"
  by (simp add: Pencil_onDrawing_def Let_def ShapeDrawer_onDrawing_fields)

lemma Pencil_onDrawing_appends:
  assumes "shape (drawers s d) = Some r" "pointerPosition s = Some p" "r < length (nodes s)"
  shows "on_result (points_of r) (Pencil_onDrawing d s)
           = Inr (points_of r s @ [point_x p, point_y p])"
    and "on_result (\<lambda>t. map Line_points (nodes t)) (Pencil_onDrawing d s)
           = Inr ((map Line_points (nodes s))[r := points_of r s @ [point_x p, point_y p]])"
    and "on_result shapes (Pencil_onDrawing d s) = Inr (shapes s)"
    and "on_result (\<lambda>t. shape (drawers t d)) (Pencil_onDrawing d s) = Inr (Some r)"
  using assms
  by (simp_all add: Pencil_onDrawing_Some on_result_def points_of_def Board_draw_def
      Line_set_points_def ShapeDrawer_onDrawing_fields Line_points_def map_update)

lemma Point_eta: "\<lparr>point_x = point_x p, point_y = point_y p\<rparr> = (p::Point)"
  by simp

lemma Pencil_onStartDrawing_active:
  "isDrawing d s \<Longrightarrow> pointerPosition s = Some p \<Longrightarrow>
   Pencil_onStartDrawing d s
     = Inr (snd (Pencil_createShape d (Pencil_start_config p (config (drawers s d)))
                  (upd_drawer d (\<lambda>dr. dr\<lparr>startPoint := Some p\<rparr>) s)))"
  by (simp add: Pencil_onStartDrawing_def ShapeDrawer_onStartDrawing_def upd_drawer_def Point_eta)

lemma Pencil_start_config_empty:
  "Pencil_start_config p empty_config
     = empty_config\<lparr>cfg_globalCompositeOperation := Some ''source-over'',
                     cfg_points := Some [point_x p, point_y p]\<rparr>"
  by (simp add: Pencil_start_config_def spread_def empty_config_def)

lemma Pencil_onDrawing_step:
  assumes "shape (drawers s d) = Some r" "r < length (nodes s)"
  shows "\<exists>s'. Pencil_onDrawing d (pointer_at a b s) = Inr s' \<and> shape (drawers s' d) = Some r
           \<and> length (nodes s') = length (nodes s) \<and> shapes s' = shapes s
           \<and> points_of r s' = points_of r s @ [a, b]"
  using assms
  by (simp add: Pencil_onDrawing_def Let_def ShapeDrawer_onDrawing_fields pointer_at_def
      Board_draw_def Line_set_points_def points_of_def Line_points_def
      ShapeDrawer_onDrawing_def isDrawing_def set_cursor_def)

lemma pencil_stroke_start:
  "\<exists>s1. Pencil_onStartDrawing d (pointer_at a b (Pencil_draw d empty_config s0)) = Inr s1
      \<and> shape (drawers s1 d) = Some (length (nodes s0))
      \<and> length (nodes s1) = Suc (length (nodes s0))
      \<and> shapes s1 = shapes s0 @ [length (nodes s0)]
      \<and> points_of (length (nodes s0)) s1 = [a, b]"
proof -
  let ?s = "pointer_at a b (Pencil_draw d empty_config s0)"
  have act: "isDrawing d ?s"
    by (simp add: isDrawing_def pointer_at_def Pencil_draw_def draw_fields)
  have ptr: "pointerPosition ?s = Some \<lparr>point_x = a, point_y = b\<rparr>"
    by (simp add: pointer_at_def)
  have cfg: "config (drawers ?s d) = empty_config" "nodes ?s = nodes s0" "shapes ?s = shapes s0"
    by (simp_all add: pointer_at_def Pencil_draw_def draw_fields)
  show ?thesis
    unfolding Pencil_onStartDrawing_active [OF act ptr] cfg Pencil_start_config_empty
    by (simp add: Pencil_createShape_eq upd_drawer_def cfg points_of_def Line_points_def)
qed

lemma pencil_stroke_result:
  "\<exists>s. pencil_stroke d s0 = Inr s \<and> shape (drawers s d) = Some (length (nodes s0))
       \<and> shapes s = shapes s0 @ [length (nodes s0)]
       \<and> points_of (length (nodes s0)) s = [0, 0, 1, 1, 2, 2]"
proof -
  let ?r = "length (nodes s0)"
  obtain s1 where s1: "Pencil_onStartDrawing d (pointer_at 0 0 (Pencil_draw d empty_config s0)) = Inr s1"
    "shape (drawers s1 d) = Some ?r" "length (nodes s1) = Suc ?r"
    "shapes s1 = shapes s0 @ [?r]" "points_of ?r s1 = [0, 0]"
    using pencil_stroke_start [of d 0 0 s0] by blast
  from s1 have "?r < length (nodes s1)" by simp
  from Pencil_onDrawing_step [OF s1(2) this, of 1 1]
  obtain s2 where s2: "Pencil_onDrawing d (pointer_at 1 1 s1) = Inr s2"
    "shape (drawers s2 d) = Some ?r" "length (nodes s2) = length (nodes s1)"
    "shapes s2 = shapes s1" "points_of ?r s2 = points_of ?r s1 @ [1, 1]"
    by blast
  from s2 s1 have "?r < length (nodes s2)" by simp
  from Pencil_onDrawing_step [OF s2(2) this, of 2 2]
  obtain s3 where s3: "Pencil_onDrawing d (pointer_at 2 2 s2) = Inr s3"
    "shape (drawers s3 d) = Some ?r" "length (nodes s3) = length (nodes s2)"
    "shapes s3 = shapes s2" "points_of ?r s3 = points_of ?r s2 @ [2, 2]"
    by blast
  have "pencil_stroke d s0 = Inr s3"
    by (simp add: pencil_stroke_def then_do_def s1(1) s2(1) s3(1))
  moreover have "points_of ?r s3 = [0, 0, 1, 1, 2, 2]"
    by (simp add: s3(5) s2(5) s1(5))
  moreover have "shapes s3 = shapes s0 @ [?r]"
    by (simp add: s3(4) s2(4) s1(4))
  ultimately show ?thesis
    using s3(2) by blast
qed

lemma pencil_anchored_reached:
  "Pencil_onStartDrawing 0 (pointer_at 0 0 (Pencil_draw 0 empty_config fresh_board))
     = Inr pencil_anchored"
proof -
  let ?s = "pointer_at 0 0 (Pencil_draw 0 empty_config fresh_board)"
  have act: "isDrawing 0 ?s"
    by (simp add: isDrawing_def pointer_at_def Pencil_draw_def draw_fields)
  have ptr: "pointerPosition ?s = Some \<lparr>point_x = 0, point_y = 0\<rparr>"
    by (simp add: pointer_at_def)
  have cfg: "config (drawers ?s 0) = empty_config"
    by (simp add: pointer_at_def Pencil_draw_def draw_fields)
  have eq: "snd (Pencil_createShape 0
               (empty_config\<lparr>cfg_globalCompositeOperation := Some ''source-over'',
                              cfg_points := Some [0, 0]\<rparr>)
               (upd_drawer 0 (\<lambda>dr. dr\<lparr>startPoint := Some \<lparr>point_x = 0, point_y = 0\<rparr>\<rparr>) ?s))
            = pencil_anchored"
    by (rule world.equality)
      (simp_all add: Pencil_createShape_eq upd_drawer_def pointer_at_def Pencil_draw_def
        draw_simps stopDrawing_simps pencil_anchored_def fresh_board_def new_drawer_def)
  show ?thesis
    unfolding Pencil_onStartDrawing_active [OF act ptr] cfg Pencil_start_config_empty
    using eq by simp
qed

lemma pencil_anchored_fields:
  "activeDrawing pencil_anchored = Some Pencil"
  "stageListeners pencil_anchored = stage_bindings 0"
  "windowListeners pencil_anchored = window_bindings 0"
  "shapes pencil_anchored = [0]"
  "nodes pencil_anchored = [empty_config\<lparr>cfg_globalCompositeOperation := Some ''source-over'',
                            cfg_points := Some [0, 0]\<rparr>]"
  "drawers pencil_anchored 0 = \<lparr>drawType = Pencil, config = empty_config,
               startPoint = Some \<lparr>point_x = 0, point_y = 0\<rparr>, shape = Some 0\<rparr>"
  "drawers pencil_anchored (Suc k) = new_drawer (OtherDrawType k)"
  by (simp_all add: pencil_anchored_def fresh_board_def)

lemma pencil_superseded_fields:
  "activeDrawing pencil_superseded = Some (OtherDrawType 0)"
  "shapes pencil_superseded = [0]"
  "nodes pencil_superseded = [empty_config\<lparr>cfg_globalCompositeOperation := Some ''source-over'',
                            cfg_points := Some [0, 0]\<rparr>]"
  "drawers pencil_superseded 0 = \<lparr>drawType = Pencil, config = empty_config,
               startPoint = Some \<lparr>point_x = 0, point_y = 0\<rparr>, shape = Some 0\<rparr>"
  by (simp_all add: pencil_superseded_def draw_fields pencil_anchored_fields new_drawer_def)

lemma other_bindings_kept:
  assumes "a \<noteq> b"
  shows "filter (\<lambda>l. fst (snd l) = a) (stageListeners (draw b cfg s))
           = filter (\<lambda>l. fst (snd l) = a) (stageListeners s)"
    and "{l \<in> windowListeners (draw b cfg s). fst (snd l) = a}
           = {l \<in> windowListeners s. fst (snd l) = a}"
proof -
  have none: "filter (\<lambda>l. fst (snd l) = a) (stage_bindings b) = []"
    using assms stage_bindings_owner [of _ b] by (auto simp: filter_empty_conv)
  have "filter (\<lambda>l. fst (snd l) = a) (filter (\<lambda>l. l \<notin> set (stage_bindings b)) (stageListeners s))
          = filter (\<lambda>l. fst (snd l) = a) (stageListeners s)"
    unfolding filter_filter
    by (rule filter_cong[OF refl]) (use assms stage_bindings_owner in blast)
  then show "filter (\<lambda>l. fst (snd l) = a) (stageListeners (draw b cfg s))
           = filter (\<lambda>l. fst (snd l) = a) (stageListeners s)"
    unfolding draw_stage stopDrawing_stage filter_append none by simp
  show "{l \<in> windowListeners (draw b cfg s). fst (snd l) = a}
           = {l \<in> windowListeners s. fst (snd l) = a}"
    unfolding draw_window stopDrawing_window using assms window_bindings_owner by blast
qed

lemma idle_base_handlers:
  "\<not> isDrawing a s \<Longrightarrow> ShapeDrawer_onStartDrawing a s = Inr s"
  "\<not> isDrawing a s \<Longrightarrow> ShapeDrawer_onDrawing a s = s"
  by (simp_all add: ShapeDrawer_onStartDrawing_def ShapeDrawer_onDrawing_def)

lemma pencil_superseded_listeners:
  "set (stage_bindings 0) \<subseteq> set (stageListeners pencil_superseded)"
  "window_bindings 0 \<subseteq> windowListeners pencil_superseded"
proof -
  have ne: "(0::nat) \<noteq> 1" by simp
  have "set (stage_bindings 0) = set (filter (\<lambda>l. fst (snd l) = 0) (stageListeners pencil_anchored))"
    unfolding pencil_anchored_fields using stage_bindings_owner [of _ 0] by auto
  also have "\<dots> = set (filter (\<lambda>l. fst (snd l) = 0) (stageListeners pencil_superseded))"
    unfolding pencil_superseded_def other_bindings_kept(1) [OF ne] ..
  finally show "set (stage_bindings 0) \<subseteq> set (stageListeners pencil_superseded)"
    by auto
  have "window_bindings 0 = {l \<in> windowListeners pencil_anchored. fst (snd l) = 0}"
    unfolding pencil_anchored_fields using window_bindings_owner [of _ 0] by auto
  also have "\<dots> = {l \<in> windowListeners pencil_superseded. fst (snd l) = 0}"
    unfolding pencil_superseded_def other_bindings_kept(2) [OF ne] ..
  finally show "window_bindings 0 \<subseteq> windowListeners pencil_superseded"
    by auto
qed

lemma pencil_superseded_idle:
  "\<not> isDrawing 0 pencil_superseded" "\<not> isDrawing 0 (pointer_at px py pencil_superseded)"
  "isDrawing 1 pencil_superseded"
  by (simp_all add: isDrawing_def pointer_at_def pencil_superseded_fields)
    (simp add: pencil_superseded_def draw_fields pencil_anchored_fields(7) [of 0, simplified] new_drawer_def)

subsection \<open>stopDrawing\<close>

text \<open>
  C8. \<^verbatim>\<open>stopDrawing()\<close> is idempotent: called twice in a row it leaves exactly the
  state that one call leaves, drawer and Board alike. \<^verbatim>\<open>stopDrawing\<close> has no
  statement that can throw, so its result is always a state.
\<close>

theorem stopDrawing_idempotent: "stopDrawing d (stopDrawing d s) = stopDrawing d s"
  by (rule world.equality) (simp_all add: stopDrawing_simps Diff_idemp)


text \<open>
  C2. After \<^verbatim>\<open>stopDrawing()\<close>, from any state, the drawer's shape reference is null
  and none of the listeners that the drawer attaches is registered: neither the six
  stage listeners nor the three window listeners. The listeners that \<^verbatim>\<open>draw\<close> adds are
  exactly these, and a \<^verbatim>\<open>stopDrawing()\<close> after \<^verbatim>\<open>draw\<close> leaves the listeners that a
  \<^verbatim>\<open>stopDrawing()\<close> alone leaves.
\<close>

theorem stopDrawing_detaches:
  "shape (drawers (stopDrawing d s) d) = None
   \<and> set (stage_bindings d) \<inter> set (stageListeners (stopDrawing d s)) = {}
   \<and> window_bindings d \<inter> windowListeners (stopDrawing d s) = {}
   \<and> stageListeners (draw d cfg s) = stageListeners (stopDrawing d s) @ stage_bindings d
   \<and> windowListeners (draw d cfg s) = windowListeners (stopDrawing d s) \<union> window_bindings d
   \<and> stageListeners (stopDrawing d (draw d cfg s)) = stageListeners (stopDrawing d s)
   \<and> windowListeners (stopDrawing d (draw d cfg s)) = windowListeners (stopDrawing d s)"
proof -
  have 1: "shape (drawers (stopDrawing d s) d) = None"
    by (simp add: stopDrawing_simps)
  have 2: "set (stage_bindings d) \<inter> set (stageListeners (stopDrawing d s)) = {}"
    unfolding stopDrawing_stage by auto
  have 3: "window_bindings d \<inter> windowListeners (stopDrawing d s) = {}"
    unfolding stopDrawing_window by blast
  have 4: "stageListeners (stopDrawing d (draw d cfg s)) = stageListeners (stopDrawing d s)"
    unfolding stopDrawing_stage draw_stage by simp
  have 5: "windowListeners (stopDrawing d (draw d cfg s)) = windowListeners (stopDrawing d s)"
    unfolding stopDrawing_window draw_window by blast
  from 1 2 3 4 5 show ?thesis
    by (simp only: draw_stage draw_window simp_thms)
qed

text \<open>
  C3, as the code has it. Called on a drawer that is not the active one,
  \<^verbatim>\<open>stopDrawing()\<close> still sets the Board's active DrawMode to none, so the DrawMode is
  what it was only when none was active. Apart from the DrawMode and the cursor, the call
  touches the calling drawer's shape reference and its own listeners only: the other
  drawers, their listeners, the shapes and the nodes stay as they were.
\<close>

theorem stopDrawing_clears_mode:
  "\<not> isDrawing d s \<Longrightarrow>
     activeDrawing (stopDrawing d s) = None
   \<and> (activeDrawing (stopDrawing d s) = activeDrawing s \<longleftrightarrow> activeDrawing s = None)
   \<and> (\<forall>d'. d' \<noteq> d \<longrightarrow> drawers (stopDrawing d s) d' = drawers s d')
   \<and> drawers (stopDrawing d s) d = (drawers s d)\<lparr>shape := None\<rparr>
   \<and> filter (\<lambda>l. fst (snd l) \<noteq> d) (stageListeners (stopDrawing d s))
       = filter (\<lambda>l. fst (snd l) \<noteq> d) (stageListeners s)
   \<and> {l \<in> windowListeners (stopDrawing d s). fst (snd l) \<noteq> d}
       = {l \<in> windowListeners s. fst (snd l) \<noteq> d}
   \<and> shapes (stopDrawing d s) = shapes s \<and> nodes (stopDrawing d s) = nodes s
   \<and> pointerPosition (stopDrawing d s) = pointerPosition s"
proof -
  have st: "filter (\<lambda>l. fst (snd l) \<noteq> d) (stageListeners (stopDrawing d s))
       = filter (\<lambda>l. fst (snd l) \<noteq> d) (stageListeners s)"
    unfolding stopDrawing_stage filter_filter
    by (rule filter_cong[OF refl]) (use stage_bindings_owner in blast)
  have wi: "{l \<in> windowListeners (stopDrawing d s). fst (snd l) \<noteq> d}
       = {l \<in> windowListeners s. fst (snd l) \<noteq> d}"
    unfolding stopDrawing_window using window_bindings_owner by blast
  have "activeDrawing (stopDrawing d s) = activeDrawing s \<longleftrightarrow> activeDrawing s = None"
    by (auto simp: stopDrawing_fields)
  with st wi show ?thesis
    by (simp add: stopDrawing_fields)
qed

text \<open>
  The Pencil is drawing and \<^verbatim>\<open>stopDrawing()\<close> is called on another drawer, which is not
  drawing: the Board's DrawMode was the Pencil's and is none afterwards.
\<close>

theorem stopDrawing_other_counterexample:
  "\<not> isDrawing 1 (Pencil_draw 0 empty_config fresh_board)
   \<and> activeDrawing (Pencil_draw 0 empty_config fresh_board) = Some Pencil
   \<and> activeDrawing (stopDrawing 1 (Pencil_draw 0 empty_config fresh_board)) = None"
  by (simp add: isDrawing_def Pencil_draw_def draw_fields stopDrawing_fields fresh_board_def
      new_drawer_def)

theorem stopDrawing_clears_mode_witness:
  "\<not> isDrawing 1 (Pencil_draw 0 empty_config fresh_board)
   \<and> activeDrawing (stopDrawing 1 (Pencil_draw 0 empty_config fresh_board)) = None
   \<and> drawers (stopDrawing 1 (Pencil_draw 0 empty_config fresh_board)) 0
       = drawers (Pencil_draw 0 empty_config fresh_board) 0"
proof -
  have h: "\<not> isDrawing 1 (Pencil_draw 0 empty_config fresh_board)"
    by (simp add: isDrawing_def Pencil_draw_def draw_fields fresh_board_def new_drawer_def)
  show ?thesis
    using h stopDrawing_clears_mode [OF h] by simp
qed

subsection \<open>The handlers of ShapeDrawer\<close>

text \<open>
  C9. A pointer-up does not leave drawing mode: for a drawer in drawing mode,
  \<^verbatim>\<open>onFinishDrawing\<close> changes the drawer's shape reference (to null) and the cursor (to
  \<^verbatim>\<open>inherit\<close>) and nothing else, so the Board's DrawMode is still the drawer's type and
  the listeners are those registered before.
\<close>

theorem onFinishDrawing_keeps_mode:
  "isDrawing d s \<Longrightarrow>
     onFinishDrawing d s
       = s\<lparr>cursor := ''inherit'', drawers := (drawers s)(d := (drawers s d)\<lparr>shape := None\<rparr>)\<rparr>
   \<and> activeDrawing (onFinishDrawing d s) = activeDrawing s
   \<and> isDrawing d (onFinishDrawing d s)
   \<and> stageListeners (onFinishDrawing d s) = stageListeners s
   \<and> windowListeners (onFinishDrawing d s) = windowListeners s"
  by (simp add: onFinishDrawing_def isDrawing_def collaborator_defs)

theorem onFinishDrawing_keeps_mode_witness:
  "isDrawing 0 pencil_anchored
   \<and> shape (drawers pencil_anchored 0) = Some 0
   \<and> shape (drawers (onFinishDrawing 0 pencil_anchored) 0) = None
   \<and> isDrawing 0 (onFinishDrawing 0 pencil_anchored)
   \<and> stageListeners (onFinishDrawing 0 pencil_anchored) = stage_bindings 0
   \<and> windowListeners (onFinishDrawing 0 pencil_anchored) = window_bindings 0"
proof -
  have h: "isDrawing 0 pencil_anchored"
    by (simp add: isDrawing_def pencil_anchored_def)
  have before: "shape (drawers pencil_anchored 0) = Some 0"
    "stageListeners pencil_anchored = stage_bindings 0"
    "windowListeners pencil_anchored = window_bindings 0"
    by (simp_all add: pencil_anchored_def)
  have after: "shape (drawers (onFinishDrawing 0 pencil_anchored) 0) = None"
    by (simp add: onFinishDrawing_def collaborator_defs)
  note kept = onFinishDrawing_keeps_mode [OF h]
  from kept have mode: "isDrawing 0 (onFinishDrawing 0 pencil_anchored)"
    by (elim conjE)
  from kept have stage: "stageListeners (onFinishDrawing 0 pencil_anchored) = stageListeners pencil_anchored"
    by (elim conjE)
  from kept have window: "windowListeners (onFinishDrawing 0 pencil_anchored) = windowListeners pencil_anchored"
    by (elim conjE)
  show ?thesis
    using h before after mode by (simp only: stage window simp_thms)
qed

subsection \<open>getShapePosition\<close>

text \<open>
  C7. \<^verbatim>\<open>getShapePosition()\<close> throws when the drawer has no shape, and returns the
  \<open>x\<close> and \<open>y\<close> of the shape when it has one.
\<close>

theorem getShapePosition_needs_shape:
  "(shape (drawers s d) = None \<longrightarrow> getShapePosition d s = Inl TypeError)
   \<and> (shape (drawers s d) = Some r \<longrightarrow>
        getShapePosition d s = Inr \<lparr>point_x = Node_x (nodes s ! r), point_y = Node_y (nodes s ! r)\<rparr>)"
  by (simp add: getShapePosition_def)

theorem getShapePosition_needs_shape_witness:
  "shape (drawers fresh_board 0) = None \<and> getShapePosition 0 fresh_board = Inl TypeError
   \<and> shape (drawers pencil_anchored 0) = Some 0
   \<and> getShapePosition 0 pencil_anchored = Inr \<lparr>point_x = 0, point_y = 0\<rparr>"
proof -
  have none: "shape (drawers fresh_board 0) = None"
    by (simp add: fresh_board_def new_drawer_def)
  have some: "shape (drawers pencil_anchored 0) = Some 0"
    by (simp add: pencil_anchored_def)
  have node: "Node_x (nodes pencil_anchored ! 0) = 0" "Node_y (nodes pencil_anchored ! 0) = 0"
    by (simp_all add: pencil_anchored_def Node_x_def Node_y_def empty_config_def)
  from getShapePosition_needs_shape [of fresh_board 0] none
  have 1: "getShapePosition 0 fresh_board = Inl TypeError"
    by blast
  from getShapePosition_needs_shape [of pencil_anchored 0 0] some
  have 2: "getShapePosition 0 pencil_anchored
             = Inr \<lparr>point_x = Node_x (nodes pencil_anchored ! 0),
                    point_y = Node_y (nodes pencil_anchored ! 0)\<rparr>"
    by blast
  show ?thesis
    using none some 1 2 by (simp only: node simp_thms)
qed


subsection \<open>insert\<close>


subsection \<open>The handlers of the Pencil\<close>

text \<open>
  C10. When \<^verbatim>\<open>Pencil.onStartDrawing\<close> fires while the drawer is not in drawing mode,
  the handler of the base class returns without a new anchor, and the Pencil goes on: it
  throws if no anchor was ever stored, and otherwise creates a polyline from the stored
  anchor and the draft config and registers it with the Board. The polyline's points are
  the stored anchor unless the draft config has points of its own.
\<close>

theorem Pencil_onStartDrawing_unguarded:
  "\<not> isDrawing d s \<Longrightarrow>
     ShapeDrawer_onStartDrawing d s = Inr s
   \<and> (startPoint (drawers s d) = None \<longrightarrow> Pencil_onStartDrawing d s = Inl TypeError)
   \<and> (startPoint (drawers s d) = Some sp \<longrightarrow>
        Pencil_onStartDrawing d s
          = Inr (snd (Pencil_createShape d (Pencil_start_config sp (config (drawers s d))) s))
        \<and> on_result nodes (Pencil_onStartDrawing d s)
            = Inr (nodes s @ [Pencil_start_config sp (config (drawers s d))])
        \<and> on_result shapes (Pencil_onStartDrawing d s) = Inr (shapes s @ [length (nodes s)])
        \<and> on_result (\<lambda>t. shape (drawers t d)) (Pencil_onStartDrawing d s) = Inr (Some (length (nodes s)))
        \<and> on_result (\<lambda>t. startPoint (drawers t d)) (Pencil_onStartDrawing d s) = Inr (Some sp)
        \<and> (cfg_points (config (drawers s d)) = None \<longrightarrow>
             on_result (points_of (length (nodes s))) (Pencil_onStartDrawing d s)
               = Inr [point_x sp, point_y sp]))"
  by (simp add: ShapeDrawer_onStartDrawing_def Pencil_onStartDrawing_def Pencil_createShape_eq
      on_result_def points_of_def Line_points_def Pencil_start_config_def spread_def)

theorem Pencil_onStartDrawing_unguarded_witness:
  "\<not> isDrawing 0 fresh_board \<and> startPoint (drawers fresh_board 0) = None
   \<and> Pencil_onStartDrawing 0 fresh_board = Inl TypeError
   \<and> \<not> isDrawing 0 (pointer_at 5 5 pencil_superseded)
   \<and> startPoint (drawers (pointer_at 5 5 pencil_superseded) 0) = Some \<lparr>point_x = 0, point_y = 0\<rparr>
   \<and> cfg_points (config (drawers (pointer_at 5 5 pencil_superseded) 0)) = None
   \<and> shapes (pointer_at 5 5 pencil_superseded) = [0]
   \<and> on_result shapes (Pencil_onStartDrawing 0 (pointer_at 5 5 pencil_superseded)) = Inr [0, 1]
   \<and> on_result (points_of 1) (Pencil_onStartDrawing 0 (pointer_at 5 5 pencil_superseded))
       = Inr [0, 0]"
proof -
  let ?s = "pointer_at 5 5 pencil_superseded"
  have idle0: "\<not> isDrawing 0 fresh_board"
    by (simp add: isDrawing_def fresh_board_def)
  have none: "startPoint (drawers fresh_board 0) = None"
    by (simp add: fresh_board_def new_drawer_def)
  from Pencil_onStartDrawing_unguarded [OF idle0] none
  have err: "Pencil_onStartDrawing 0 fresh_board = Inl TypeError"
    by blast
  have idle: "\<not> isDrawing 0 ?s"
    by (rule pencil_superseded_idle)
  have some: "startPoint (drawers ?s 0) = Some \<lparr>point_x = 0, point_y = 0\<rparr>"
    and pts: "cfg_points (config (drawers ?s 0)) = None"
    and st: "shapes ?s = [0]" "length (nodes ?s) = 1"
    by (simp_all add: pointer_at_def pencil_superseded_fields empty_config_def)
  note t = Pencil_onStartDrawing_unguarded [OF idle, of "\<lparr>point_x = 0, point_y = 0\<rparr>"]
  from t some have 1: "on_result shapes (Pencil_onStartDrawing 0 ?s) = Inr (shapes ?s @ [length (nodes ?s)])"
    by blast
  from t some pts have 2: "on_result (points_of (length (nodes ?s))) (Pencil_onStartDrawing 0 ?s)
       = Inr [point_x \<lparr>point_x = 0, point_y = 0\<rparr>, point_y \<lparr>point_x = 0, point_y = 0\<rparr>]"
    by blast
  show ?thesis
    using idle0 none err idle some pts st(1) 1 2 unfolding st by simp
qed

text \<open>
  C5. A stroke of the Pencil with an empty draft config (pointer-down at \<open>(0, 0)\<close>, moves
  at \<open>(1, 1)\<close> and \<open>(2, 2)\<close>), on any board, ends with a shape whose points are
  \<open>[0, 0, 1, 1, 2, 2]\<close>, held by the drawer and registered with the Board. Every move on
  a drawer that holds a shape appends the pointer position to the points of that shape and
  changes the points of no other node.
\<close>

theorem Pencil_points_append_only:
  "on_result (points_of (length (nodes s0))) (pencil_stroke d s0) = Inr [0, 0, 1, 1, 2, 2]
   \<and> on_result (\<lambda>t. shape (drawers t d)) (pencil_stroke d s0) = Inr (Some (length (nodes s0)))
   \<and> on_result shapes (pencil_stroke d s0) = Inr (shapes s0 @ [length (nodes s0)])
   \<and> (shape (drawers s d) = Some r \<and> pointerPosition s = Some p \<and> r < length (nodes s) \<longrightarrow>
        on_result (points_of r) (Pencil_onDrawing d s)
          = Inr (points_of r s @ [point_x p, point_y p])
      \<and> on_result (\<lambda>t. map Line_points (nodes t)) (Pencil_onDrawing d s)
          = Inr ((map Line_points (nodes s))[r := points_of r s @ [point_x p, point_y p]])
      \<and> on_result shapes (Pencil_onDrawing d s) = Inr (shapes s))"
proof -
  obtain t where t: "pencil_stroke d s0 = Inr t" "shape (drawers t d) = Some (length (nodes s0))"
    "shapes t = shapes s0 @ [length (nodes s0)]"
    "points_of (length (nodes s0)) t = [0, 0, 1, 1, 2, 2]"
    using pencil_stroke_result [of d s0] by blast
  have stroke: "on_result (points_of (length (nodes s0))) (pencil_stroke d s0) = Inr [0, 0, 1, 1, 2, 2]"
    "on_result (\<lambda>t. shape (drawers t d)) (pencil_stroke d s0) = Inr (Some (length (nodes s0)))"
    "on_result shapes (pencil_stroke d s0) = Inr (shapes s0 @ [length (nodes s0)])"
    using t by (simp_all add: on_result_def)
  show ?thesis
    using stroke Pencil_onDrawing_appends [of s d r p] by blast
qed

theorem Pencil_points_append_only_witness:
  "shape (drawers (pointer_at 1 1 pencil_anchored) 0) = Some 0
   \<and> pointerPosition (pointer_at 1 1 pencil_anchored) = Some \<lparr>point_x = 1, point_y = 1\<rparr>
   \<and> 0 < length (nodes (pointer_at 1 1 pencil_anchored))
   \<and> points_of 0 (pointer_at 1 1 pencil_anchored) = [0, 0]
   \<and> on_result (points_of 0) (Pencil_onDrawing 0 (pointer_at 1 1 pencil_anchored))
       = Inr [0, 0, 1, 1]
   \<and> on_result (points_of 0) (pencil_stroke 0 fresh_board) = Inr [0, 0, 1, 1, 2, 2]"
proof -
  let ?s = "pointer_at 1 1 pencil_anchored"
  have h: "shape (drawers ?s 0) = Some 0"
    "pointerPosition ?s = Some \<lparr>point_x = 1, point_y = 1\<rparr>"
    "0 < length (nodes ?s)"
    by (simp_all add: pointer_at_def pencil_anchored_fields)
  have before: "points_of 0 ?s = [0, 0]"
    by (simp add: points_of_def pointer_at_def pencil_anchored_fields Line_points_def)
  note t = Pencil_points_append_only [of fresh_board 0 ?s 0 "\<lparr>point_x = 1, point_y = 1\<rparr>"]
  from t h have step: "on_result (points_of 0) (Pencil_onDrawing 0 ?s)
       = Inr (points_of 0 ?s @ [point_x \<lparr>point_x = 1, point_y = 1\<rparr>, point_y \<lparr>point_x = 1, point_y = 1\<rparr>])"
    by blast
  from t have stroke: "on_result (points_of (length (nodes fresh_board))) (pencil_stroke 0 fresh_board)
       = Inr [0, 0, 1, 1, 2, 2]"
    by (elim conjE)
  have len: "length (nodes fresh_board) = 0"
    by (simp add: fresh_board_def)
  show ?thesis
    using h before step stroke unfolding len by simp
qed

text \<open>
  C6, as the code has it. A pointer-move on a Pencil that is not in drawing mode and holds
  no shape changes nothing and throws nothing. The Pencil decides by its shape reference,
  not by the mode.
\<close>

theorem Pencil_onDrawing_idle:
  "\<not> isDrawing d s \<Longrightarrow> shape (drawers s d) = None \<Longrightarrow> Pencil_onDrawing d s = Inr s"
  by (simp add: Pencil_onDrawing_def ShapeDrawer_onDrawing_def)

theorem Pencil_onDrawing_idle_witness:
  "\<not> isDrawing 0 (pointer_at 1 1 (draw 1 empty_config (Pencil_draw 0 empty_config fresh_board)))
   \<and> shape (drawers (pointer_at 1 1 (draw 1 empty_config (Pencil_draw 0 empty_config fresh_board))) 0) = None
   \<and> Pencil_onDrawing 0 (pointer_at 1 1 (draw 1 empty_config (Pencil_draw 0 empty_config fresh_board)))
       = Inr (pointer_at 1 1 (draw 1 empty_config (Pencil_draw 0 empty_config fresh_board)))"
proof -
  let ?s = "pointer_at 1 1 (draw 1 empty_config (Pencil_draw 0 empty_config fresh_board))"
  have idle: "\<not> isDrawing 0 ?s"
    by (simp add: isDrawing_def pointer_at_def draw_fields Pencil_draw_def fresh_board_def
        new_drawer_def)
  have null: "shape (drawers ?s 0) = None"
    by (simp add: pointer_at_def draw_fields Pencil_draw_def)
  show ?thesis
    using idle null Pencil_onDrawing_idle [OF idle null] by (simp only: simp_thms)
qed

text \<open>
  The Pencil has started a shape and another drawer's \<^verbatim>\<open>draw\<close> has taken the mode
  over. The Pencil's pointer-move listener is still on the stage, the Pencil is not in
  drawing mode, and a move at \<open>(1, 1)\<close> appends to the points of its shape.
\<close>

theorem Pencil_onDrawing_stale_shape_counterexample:
  "Pencil_onStartDrawing 0 (pointer_at 0 0 (Pencil_draw 0 empty_config fresh_board))
     = Inr pencil_anchored
   \<and> pencil_superseded = draw 1 empty_config pencil_anchored
   \<and> \<not> isDrawing 0 (pointer_at 1 1 pencil_superseded)
   \<and> (''mousemove'', (0, OnDrawing)) \<in> set (stageListeners (pointer_at 1 1 pencil_superseded))
   \<and> points_of 0 (pointer_at 1 1 pencil_superseded) = [0, 0]
   \<and> on_result (points_of 0) (Pencil_onDrawing 0 (pointer_at 1 1 pencil_superseded))
       = Inr [0, 0, 1, 1]"
proof -
  have "(''mousemove'', (0, OnDrawing)) \<in> set (stage_bindings 0)"
    by (simp add: stage_bindings_def)
  then have move: "(''mousemove'', (0, OnDrawing)) \<in> set (stageListeners (pointer_at 1 1 pencil_superseded))"
    using pencil_superseded_listeners(1) by (auto simp: pointer_at_def)
  have before: "points_of 0 (pointer_at 1 1 pencil_superseded) = [0, 0]"
    by (simp add: points_of_def pointer_at_def pencil_superseded_fields Line_points_def)
  have sh: "shape (drawers (pointer_at 1 1 pencil_superseded) 0) = Some 0"
    "pointerPosition (pointer_at 1 1 pencil_superseded) = Some \<lparr>point_x = 1, point_y = 1\<rparr>"
    "0 < length (nodes (pointer_at 1 1 pencil_superseded))"
    by (simp_all add: pointer_at_def pencil_superseded_fields)
  have after: "on_result (points_of 0) (Pencil_onDrawing 0 (pointer_at 1 1 pencil_superseded))
       = Inr [0, 0, 1, 1]"
    unfolding Pencil_onDrawing_appends(1) [OF sh] before by simp
  show ?thesis
    using pencil_anchored_reached pencil_superseded_def pencil_superseded_idle(2) [of 1 1]
      move before after
    by blast
qed

subsection \<open>Two drawers\<close>

text \<open>
  C1, as the code has it. When drawer \<open>a\<close> is in drawing mode and \<^verbatim>\<open>draw\<close> is called
  on a drawer \<open>b\<close> of another draw type, then afterwards \<open>a\<close> is not in drawing mode and
  \<open>b\<close> is. The call detaches the listeners of \<open>b\<close> only: the fields of \<open>a\<close> and the
  listeners of \<open>a\<close> on the stage and on the window are what they were. The pointer-down
  and pointer-move handlers of the base class, which test \<^verbatim>\<open>isDrawing()\<close>, change
  nothing when they fire for \<open>a\<close>.
\<close>

theorem draw_supersedes_mode:
  "drawType (drawers s a) \<noteq> drawType (drawers s b) \<Longrightarrow> isDrawing a s \<Longrightarrow>
     \<not> isDrawing a (draw b cfg s) \<and> isDrawing b (draw b cfg s)
   \<and> drawers (draw b cfg s) a = drawers s a
   \<and> filter (\<lambda>l. fst (snd l) = a) (stageListeners (draw b cfg s))
       = filter (\<lambda>l. fst (snd l) = a) (stageListeners s)
   \<and> {l \<in> windowListeners (draw b cfg s). fst (snd l) = a}
       = {l \<in> windowListeners s. fst (snd l) = a}
   \<and> ShapeDrawer_onStartDrawing a (pointer_at px py (draw b cfg s))
       = Inr (pointer_at px py (draw b cfg s))
   \<and> ShapeDrawer_onDrawing a (pointer_at px py (draw b cfg s)) = pointer_at px py (draw b cfg s)"
proof -
  assume types: "drawType (drawers s a) \<noteq> drawType (drawers s b)"
  then have ab: "a \<noteq> b" by auto
  have idle: "\<not> isDrawing a (draw b cfg s)" "\<not> isDrawing a (pointer_at px py (draw b cfg s))"
    using types ab by (auto simp: isDrawing_def draw_fields pointer_at_def)
  have active: "isDrawing b (draw b cfg s)"
    by (simp add: isDrawing_def draw_fields)
  have same: "drawers (draw b cfg s) a = drawers s a"
    using ab by (simp add: draw_fields)
  show ?thesis
    using idle(1) active same other_bindings_kept [OF ab] idle_base_handlers [OF idle(2)]
    by simp
qed

theorem draw_supersedes_mode_witness:
  "drawType (drawers pencil_anchored 0) \<noteq> drawType (drawers pencil_anchored 1)
   \<and> isDrawing 0 pencil_anchored
   \<and> \<not> isDrawing 0 (draw 1 empty_config pencil_anchored)
   \<and> isDrawing 1 (draw 1 empty_config pencil_anchored)
   \<and> filter (\<lambda>l. fst (snd l) = 0) (stageListeners (draw 1 empty_config pencil_anchored))
       = stage_bindings 0"
proof -
  have types: "drawType (drawers pencil_anchored 0) \<noteq> drawType (drawers pencil_anchored 1)"
    using pencil_anchored_fields(7) [of 0] by (simp add: pencil_anchored_fields(6) new_drawer_def)
  have mode: "isDrawing 0 pencil_anchored"
    by (simp add: isDrawing_def pencil_anchored_fields)
  have own: "filter (\<lambda>l. fst (snd l) = 0) (stage_bindings 0) = stage_bindings 0"
    unfolding filter_id_conv using stage_bindings_owner [of _ 0] by blast
  note t = draw_supersedes_mode [OF types mode, of empty_config 0 0]
  from t have 1: "\<not> isDrawing 0 (draw 1 empty_config pencil_anchored)"
    by (elim conjE)
  from t have 2: "isDrawing 1 (draw 1 empty_config pencil_anchored)"
    by (elim conjE)
  from t have 3: "filter (\<lambda>l. fst (snd l) = 0) (stageListeners (draw 1 empty_config pencil_anchored))
       = filter (\<lambda>l. fst (snd l) = 0) (stageListeners pencil_anchored)"
    by (elim conjE)
  show ?thesis
    using types mode 1 2 by (simp only: 3 pencil_anchored_fields(2) own simp_thms)
qed

text \<open>
  The Pencil has started a shape and \<^verbatim>\<open>draw\<close> is called on a drawer of another type.
  The Pencil's listeners are still attached. A pointer-down then reaches the Pencil's
  handler, which adds a second shape to the Board; the Escape key reaches the Pencil's key
  handler, which ends the drawing mode of the other drawer.
\<close>

theorem draw_leaves_listeners_counterexample:
  "drawType (drawers pencil_anchored 0) \<noteq> drawType (drawers pencil_anchored 1)
   \<and> isDrawing 0 pencil_anchored
   \<and> pencil_superseded = draw 1 empty_config pencil_anchored
   \<and> (''mousedown'', (0, OnStartDrawing)) \<in> set (stageListeners pencil_superseded)
   \<and> (''keydown'', (0, OnKeyDown)) \<in> windowListeners pencil_superseded
   \<and> shapes pencil_superseded = [0]
   \<and> on_result shapes (Pencil_onStartDrawing 0 (pointer_at 5 5 pencil_superseded)) = Inr [0, 1]
   \<and> isDrawing 1 pencil_superseded
   \<and> \<not> isDrawing 1 (onKeyDown 0 ''Escape'' pencil_superseded)"
proof -
  have types: "drawType (drawers pencil_anchored 0) \<noteq> drawType (drawers pencil_anchored 1)"
    using pencil_anchored_fields(7) [of 0] by (simp add: pencil_anchored_fields(6) new_drawer_def)
  have mode: "isDrawing 0 pencil_anchored"
    by (simp add: isDrawing_def pencil_anchored_fields)
  have "(''mousedown'', (0, OnStartDrawing)) \<in> set (stage_bindings 0)"
    by (simp add: stage_bindings_def)
  then have down: "(''mousedown'', (0, OnStartDrawing)) \<in> set (stageListeners pencil_superseded)"
    using pencil_superseded_listeners(1) by blast
  have "(''keydown'', (0, OnKeyDown)) \<in> window_bindings 0"
    by (simp add: window_bindings_def)
  then have key: "(''keydown'', (0, OnKeyDown)) \<in> windowListeners pencil_superseded"
    using pencil_superseded_listeners(2) by blast
  have start: "on_result shapes (Pencil_onStartDrawing 0 (pointer_at 5 5 pencil_superseded)) = Inr [0, 1]"
    using pencil_superseded_idle(2) [of 5 5]
    by (simp add: Pencil_onStartDrawing_def idle_base_handlers(1) pointer_at_def
        pencil_superseded_fields Pencil_createShape_eq on_result_def)
  have esc: "\<not> isDrawing 1 (onKeyDown 0 ''Escape'' pencil_superseded)"
    by (simp add: onKeyDown_def isDrawing_def stopDrawing_fields)
  show ?thesis
    using types mode pencil_superseded_def down key pencil_superseded_fields(2) start
      pencil_superseded_idle(3) esc
    by blast
qed

end
